theory Spec2Isabelle
  imports Main
begin

section \<open>Data model of \<^verbatim>\<open>trace_collection_subprovider.ts\<close>\<close>

text \<open>
  A JavaScript \<^verbatim>\<open>Error\<close>. An \<^verbatim>\<open>async\<close> function either resolves with a value, rejects
  with an error, or never settles (it waits on something that nobody completes, such as a
  lock that stays held or a callback that is never called): \<open>Pending\<close>.
\<close>

datatype error = Error string

datatype 'a outcome = Resolved 'a | Rejected error | Pending

text \<open>
  An optional property of a JavaScript object: not an own property of the object, an own
  property whose value is \<^verbatim>\<open>undefined\<close>, or an own property with a value. A read gives
  \<^verbatim>\<open>undefined\<close> in the first two cases alike; an object spread copies the property in
  the last two.
\<close>

datatype 'a property = Absent | Undefined | Defined 'a

text \<open>
  \<^verbatim>\<open>Partial<CallData>\<close> of ethereum-types: every field is optional. \<open>gas\<close> is the one
  field that the file writes before a spread of the object (line 218), so it keeps the
  three cases apart. Every other field is only read (\<^verbatim>\<open>_.isUndefined\<close>, \<^verbatim>\<open>||\<close>, or passed
  on), which does not tell an absent property from an undefined one: \<open>None\<close> stands for
  both. \<^verbatim>\<open>MaybeFakeTxData\<close> (lines 12-14) adds the optional marker.
\<close>

record CallData =
  from' :: "string option"
  to :: "string option"
  gas :: "nat property"
  gasPrice :: "nat option"
  value' :: "nat option"
  data :: "string option"
  nonce :: "nat option"

record MaybeFakeTxData = CallData +
  isFakeTransaction :: "bool option"

record 'a JSONRPCRequestPayload =
  "method" :: string
  params :: "'a list"

record TraceCollectionSubproviderConfig =
  shouldCollectTransactionTraces :: bool
  shouldCollectCallTraces :: bool
  shouldCollectGasEstimateTraces :: bool

text \<open>
  The two variants of \<^verbatim>\<open>TraceInfo\<close> as the object literals of \<^verbatim>\<open>_recordTxTraceAsync\<close> build
  them. \<open>bytecode\<close> is \<^verbatim>\<open>data as string\<close>, a cast that leaves an undefined \<^verbatim>\<open>data\<close>
  undefined.
\<close>

datatype 'l TraceInfo =
    TraceInfoNewContract (subtrace: "'l list") (txHash: string) (address: string)
      (bytecode: "string option")
  | TraceInfoExistingContract (subtrace: "'l list") (txHash: string) (address: string)
      (runtimeBytecode: string)

text \<open>The private fields of the class (lines 34-39); \<open>lock\<close> is whether the Lock is held.\<close>

record 'l TraceCollectionSubprovider =
  lock :: bool
  defaultFromAddress :: string
  traceInfos :: "'l TraceInfo list"
  isEnabled :: bool
  config :: TraceCollectionSubproviderConfig

definition BLOCK_GAS_LIMIT :: nat where
  "BLOCK_GAS_LIMIT = 6000000"

definition NULL_ADDRESS :: string where
  "NULL_ADDRESS = ''0x0''"

text \<open>
  Modelled from the spec: \<^verbatim>\<open>constants.NEW_CONTRACT\<close> (\<^verbatim>\<open>./constants\<close> is not among the
  sources), the "new contract" sentinel address. Its value is taken to be the key that
  line 177 compares the subcall addresses with.
\<close>

definition NEW_CONTRACT :: string where
  "NEW_CONTRACT = ''NEW_CONTRACT''"

section \<open>Construction, start, stop, handleRequest\<close>

definition new_TraceCollectionSubprovider ::
    "string \<Rightarrow> TraceCollectionSubproviderConfig \<Rightarrow> 'l TraceCollectionSubprovider" where
  "new_TraceCollectionSubprovider defaultFrom cfg =
     \<lparr>lock = False, defaultFromAddress = defaultFrom, traceInfos = [], isEnabled = True,
      config = cfg\<rparr>"

definition getCollectedTraceInfos :: "'l TraceCollectionSubprovider \<Rightarrow> 'l TraceInfo list" where
  "getCollectedTraceInfos sp = traceInfos sp"

definition start :: "'l TraceCollectionSubprovider \<Rightarrow> 'l TraceCollectionSubprovider" where
  "start sp = sp\<lparr>isEnabled := True\<rparr>"

definition stop :: "'l TraceCollectionSubprovider \<Rightarrow> 'l TraceCollectionSubprovider" where
  "stop sp = sp\<lparr>isEnabled := False\<rparr>"

text \<open>
  What \<^verbatim>\<open>handleRequest\<close> passes to \<^verbatim>\<open>next\<close>: nothing (the request is forwarded
  unmodified), or one of the two completion hooks bound to \<^verbatim>\<open>payload.params[0]\<close>.
  \<^verbatim>\<open>params\<close> is \<^verbatim>\<open>any[]\<close>: its elements are of any type \<open>'a\<close>, and reading index 0
  of an empty array gives \<^verbatim>\<open>undefined\<close>, here \<open>None\<close>.
\<close>

datatype 'a forwarded =
    Unmodified
  | OnTransactionSent "'a option"
  | OnCallOrGasEstimateExecuted "'a option"

definition first_param :: "'a list \<Rightarrow> 'a option" where
  "first_param ps = (case ps of [] \<Rightarrow> None | p # _ \<Rightarrow> Some p)"

definition handleRequest ::
    "'l TraceCollectionSubprovider \<Rightarrow> 'a JSONRPCRequestPayload \<Rightarrow> 'a forwarded" where
  "handleRequest sp payload =
     (if isEnabled sp then
        (if method payload = ''eth_sendTransaction'' then
           (if \<not> shouldCollectTransactionTraces (config sp) then Unmodified
            else OnTransactionSent (first_param (params payload)))
         else if method payload = ''eth_call'' then
           (if \<not> shouldCollectCallTraces (config sp) then Unmodified
            else OnCallOrGasEstimateExecuted (first_param (params payload)))
         else if method payload = ''eth_estimateGas'' then
           (if \<not> shouldCollectGasEstimateTraces (config sp) then Unmodified
            else OnCallOrGasEstimateExecuted (first_param (params payload)))
         else Unmodified)
      else Unmodified)"

section \<open>The node and the world a request runs in\<close>

text \<open>
  One entry of \<^verbatim>\<open>latestBlock.transactions\<close>: the two fields the failure path reads.
\<close>

record BlockTransaction =
  input :: string
  hash :: string

text \<open>
  What the subprovider calls but does not define, taken as parameters. \<open>'c\<close> is the chain
  state of the node, \<open>'l\<close> a struct log entry.
  \<^item> \<open>getTracesByContractAddress\<close> is \<^verbatim>\<open>./trace\<close> (not among the sources), a "pure function"
    by the spec (4.5), taken not to raise: the entries of the object it returns, in the
    order \<^verbatim>\<open>_.keys\<close> lists them.
  \<^item> \<open>eth_sendTransaction\<close> is the node executing a submitted transaction: an error or
    the transaction hash, and the chain state afterwards.
  \<^item> The four reads of \<^verbatim>\<open>Web3Wrapper\<close> answer from the chain state or raise.
  \<^item> \<open>evm_snapshot_fault\<close> and \<open>evm_revert_fault\<close> say whether the snapshot and the
    revert request raise (a transport or node error).
\<close>

record ('c, 'l) env =
  getTracesByContractAddress :: "'l list \<Rightarrow> string \<Rightarrow> (string \<times> 'l list) list"
  eth_sendTransaction :: "MaybeFakeTxData \<Rightarrow> 'c \<Rightarrow> (error + string) \<times> 'c"
  awaitTransactionMinedAsync :: "string \<Rightarrow> 'c \<Rightarrow> error option"
  getTransactionTraceAsync :: "string \<Rightarrow> 'c \<Rightarrow> error + 'l list"
  getContractCodeAsync :: "string \<Rightarrow> 'c \<Rightarrow> error + string"
  getBlockWithTransactionDataAsync :: "'c \<Rightarrow> error + BlockTransaction list"
  evm_snapshot_fault :: "'c \<Rightarrow> error option"
  evm_revert_fault :: "'c \<Rightarrow> error option"

text \<open>
  The state a request runs in: the subprovider object, the chain state of the node with
  the snapshots it holds, and \<open>completed\<close>, the number of times the completion callback of
  the intercepted request has been called.
\<close>

record ('c, 'l) world =
  subprovider :: "'l TraceCollectionSubprovider"
  chainState :: 'c
  snapshots :: "'c list"
  completed :: nat

text \<open>
  \<^verbatim>\<open>await\<close>: the rest of the function runs on the value when the awaited promise
  resolves; a rejection leaves the function at once, and a promise that never settles
  suspends it for good.
\<close>

definition andThen ::
    "'a outcome \<times> 'w \<Rightarrow> ('a \<Rightarrow> 'w \<Rightarrow> 'b outcome \<times> 'w) \<Rightarrow> 'b outcome \<times> 'w" where
  "andThen r k =
     (case r of
        (Resolved x, w) \<Rightarrow> k x w
      | (Rejected e, w) \<Rightarrow> (Rejected e, w)
      | (Pending, w) \<Rightarrow> (Pending, w))"

text \<open>
  \<^verbatim>\<open>try { ... } catch (err) { _.noop(); }\<close> (lines 223-229): a rejection inside the block
  is swallowed.
\<close>

definition tryCatchNoop :: "'a outcome \<times> 'w \<Rightarrow> unit outcome \<times> 'w" where
  "tryCatchNoop r =
     (case r of
        (Resolved x, w) \<Rightarrow> (Resolved (), w)
      | (Rejected e, w) \<Rightarrow> (Resolved (), w)
      | (Pending, w) \<Rightarrow> (Pending, w))"

text \<open>
  \<^verbatim>\<open>this._lock.acquire()\<close> and \<^verbatim>\<open>this._lock.release()\<close>. Within one request nobody else
  releases the lock, so acquiring a held lock does not return.
\<close>

definition lock_acquire :: "('c, 'l) world \<Rightarrow> unit outcome \<times> ('c, 'l) world" where
  "lock_acquire w =
     (if lock (subprovider w) then (Pending, w)
      else (Resolved (), w\<lparr>subprovider := (subprovider w)\<lparr>lock := True\<rparr>\<rparr>))"

definition lock_release :: "('c, 'l) world \<Rightarrow> ('c, 'l) world" where
  "lock_release w = w\<lparr>subprovider := (subprovider w)\<lparr>lock := False\<rparr>\<rparr>"

text \<open>\<^verbatim>\<open>this._traceInfos.push(traceInfo)\<close>\<close>

definition push_traceInfo :: "'l TraceInfo \<Rightarrow> ('c, 'l) world \<Rightarrow> ('c, 'l) world" where
  "push_traceInfo traceInfo w =
     w\<lparr>subprovider := (subprovider w)\<lparr>traceInfos := traceInfos (subprovider w) @ [traceInfo]\<rparr>\<rparr>"

text \<open>The completion callback \<^verbatim>\<open>cb\<close> of the intercepted request, counted.\<close>

definition complete :: "('c, 'l) world \<Rightarrow> ('c, 'l) world" where
  "complete w = w\<lparr>completed := completed w + 1\<rparr>"

text \<open>
  Modelled from the spec: the node's snapshot and revert primitives and
  \<^verbatim>\<open>BlockchainLifecycle\<close> of dev-utils (not among the sources), which "wraps take-snapshot /
  revert-snapshot primitives of the node into a scoped unit"; a snapshot is a "mechanism
  to checkpoint and roll back all chain state to a prior point", "keyed by opaque snapshot
  IDs". \<open>startAsync\<close> takes a snapshot and keeps its id; \<open>revertAsync\<close> reverts to that id,
  which also drops the snapshot and the later ones, and raises when the node refuses.
\<close>

definition startAsync :: "('c, 'l) env \<Rightarrow> ('c, 'l) world \<Rightarrow> nat outcome \<times> ('c, 'l) world" where
  "startAsync node w =
     (case evm_snapshot_fault node (chainState w) of
        Some e \<Rightarrow> (Rejected e, w)
      | None \<Rightarrow>
          (Resolved (Suc (length (snapshots w))), w\<lparr>snapshots := snapshots w @ [chainState w]\<rparr>))"

definition revertAsync ::
    "('c, 'l) env \<Rightarrow> nat \<Rightarrow> ('c, 'l) world \<Rightarrow> unit outcome \<times> ('c, 'l) world" where
  "revertAsync node snapshotId w =
     (case evm_revert_fault node (chainState w) of
        Some e \<Rightarrow> (Rejected e, w)
      | None \<Rightarrow>
          (if 0 < snapshotId \<and> snapshotId \<le> length (snapshots w) then
             (Resolved (),
              w\<lparr>chainState := snapshots w ! (snapshotId - 1),
                snapshots := take (snapshotId - 1) (snapshots w)\<rparr>)
           else (Rejected (Error ''Snapshot failed to revert''), w)))"

section \<open>Recording the trace of a transaction\<close>

text \<open>
  The two \<^verbatim>\<open>for\<close> loops of \<^verbatim>\<open>_recordTxTraceAsync\<close> over the subcall addresses: the one of
  the branch \<^verbatim>\<open>address === constants.NEW_CONTRACT\<close> (lines 175-196) and the one of the
  else branch (lines 198-208). A code fetch that raises leaves the loop with the entries
  pushed so far.
\<close>

fun recordSubcallsOfNewContract ::
    "('c, 'l) env \<Rightarrow> string option \<Rightarrow> string \<Rightarrow> (string \<times> 'l list) list \<Rightarrow> ('c, 'l) world
      \<Rightarrow> unit outcome \<times> ('c, 'l) world" where
  "recordSubcallsOfNewContract node dat h [] w = (Resolved (), w)"
| "recordSubcallsOfNewContract node dat h ((subcallAddress, traceForThatSubcall) # rest) w =
     (if subcallAddress = ''NEW_CONTRACT'' then
        recordSubcallsOfNewContract node dat h rest
          (push_traceInfo (TraceInfoNewContract traceForThatSubcall h subcallAddress dat) w)
      else
        (case getContractCodeAsync node subcallAddress (chainState w) of
           Inl e \<Rightarrow> (Rejected e, w)
         | Inr code \<Rightarrow>
             recordSubcallsOfNewContract node dat h rest
               (push_traceInfo
                  (TraceInfoExistingContract traceForThatSubcall h subcallAddress code) w)))"

fun recordSubcallsOfExistingContract ::
    "('c, 'l) env \<Rightarrow> string \<Rightarrow> (string \<times> 'l list) list \<Rightarrow> ('c, 'l) world
      \<Rightarrow> unit outcome \<times> ('c, 'l) world" where
  "recordSubcallsOfExistingContract node h [] w = (Resolved (), w)"
| "recordSubcallsOfExistingContract node h ((subcallAddress, traceForThatSubcall) # rest) w =
     (case getContractCodeAsync node subcallAddress (chainState w) of
        Inl e \<Rightarrow> (Rejected e, w)
      | Inr code \<Rightarrow>
          recordSubcallsOfExistingContract node h rest
            (push_traceInfo
               (TraceInfoExistingContract traceForThatSubcall h subcallAddress code) w))"

definition recordTxTraceAsync ::
    "('c, 'l) env \<Rightarrow> string \<Rightarrow> string option \<Rightarrow> string \<Rightarrow> ('c, 'l) world
      \<Rightarrow> unit outcome \<times> ('c, 'l) world" where
  "recordTxTraceAsync node addr dat h w =
     (case awaitTransactionMinedAsync node h (chainState w) of
        Some e \<Rightarrow> (Rejected e, w)
      | None \<Rightarrow>
          (case getTransactionTraceAsync node h (chainState w) of
             Inl e \<Rightarrow> (Rejected e, w)
           | Inr structLogs \<Rightarrow>
               (let tracesByContractAddress = getTracesByContractAddress node structLogs addr
                in if addr = NEW_CONTRACT then
                     recordSubcallsOfNewContract node dat h tracesByContractAddress w
                   else recordSubcallsOfExistingContract node h tracesByContractAddress w)))"

section \<open>The completion hook of a sent transaction\<close>

text \<open>A read of the node that is awaited: its error is raised, its value returned.\<close>

definition awaitResult :: "error + 'a \<Rightarrow> 'w \<Rightarrow> 'a outcome \<times> 'w" where
  "awaitResult r w = (case r of Inl e \<Rightarrow> (Rejected e, w) | Inr x \<Rightarrow> (Resolved x, w))"

text \<open>
  The recipient that keys the extraction (lines 137-138, and again lines 144-145):
  \<^verbatim>\<open>_.isUndefined(txData.to) || txData.to === NULL_ADDRESS ? constants.NEW_CONTRACT : txData.to\<close>
\<close>

definition toAddress :: "MaybeFakeTxData \<Rightarrow> string" where
  "toAddress txData =
     (case to txData of
        None \<Rightarrow> NEW_CONTRACT
      | Some a \<Rightarrow> if a = NULL_ADDRESS then NEW_CONTRACT else a)"

text \<open>The \<^verbatim>\<open>for\<close> loop of the failure path over the transactions of the latest block.\<close>

fun recordTransactionsOfLatestBlock ::
    "('c, 'l) env \<Rightarrow> string \<Rightarrow> BlockTransaction list \<Rightarrow> ('c, 'l) world
      \<Rightarrow> unit outcome \<times> ('c, 'l) world" where
  "recordTransactionsOfLatestBlock node addr [] w = (Resolved (), w)"
| "recordTransactionsOfLatestBlock node addr (transaction # rest) w =
     (case recordTxTraceAsync node addr (Some (input transaction)) (hash transaction) w of
        (Resolved u, w') \<Rightarrow> recordTransactionsOfLatestBlock node addr rest w'
      | (Rejected e, w') \<Rightarrow> (Rejected e, w')
      | (Pending, w') \<Rightarrow> (Pending, w'))"

text \<open>
  \<^verbatim>\<open>_onTransactionSentAsync(txData, err, txHash, cb)\<close>. The engine calls it with either an
  error or a transaction hash: \<open>Inl err\<close> or \<open>Inr txHash\<close>. \<^verbatim>\<open>txData\<close> is the
  \<^verbatim>\<open>payload.params[0]\<close> that \<^verbatim>\<open>handleRequest\<close> bound; reading a property of
  \<^verbatim>\<open>undefined\<close> raises a TypeError. \<^verbatim>\<open>!txData.isFakeTransaction\<close> holds unless the
  marker is present and true.
\<close>

definition onTransactionSentAsync ::
    "('c, 'l) env \<Rightarrow> MaybeFakeTxData option \<Rightarrow> error + string
      \<Rightarrow> (('c, 'l) world \<Rightarrow> ('c, 'l) world) \<Rightarrow> ('c, 'l) world
      \<Rightarrow> unit outcome \<times> ('c, 'l) world" where
  "onTransactionSentAsync node boundTxData res cb w =
     (case boundTxData of
        None \<Rightarrow> (Rejected (Error ''TypeError''), w)
      | Some txData \<Rightarrow>
          andThen
            (if isFakeTransaction txData \<noteq> Some True then lock_acquire w else (Resolved (), w))
            (\<lambda>u w1.
               andThen
                 (case res of
                    Inr h \<Rightarrow> recordTxTraceAsync node (toAddress txData) (data txData) h w1
                  | Inl err \<Rightarrow>
                      andThen
                        (awaitResult (getBlockWithTransactionDataAsync node (chainState w1)) w1)
                        (\<lambda>transactions w2.
                           recordTransactionsOfLatestBlock node (toAddress txData)
                             transactions w2))
                 (\<lambda>u w3.
                    (Resolved (),
                     cb (if isFakeTransaction txData \<noteq> Some True then lock_release w3
                         else w3)))))"

section \<open>The capture cycle of a call or a gas estimate\<close>

text \<open>
  The object literal of lines 217-222. The spread \<^verbatim>\<open>...callData\<close> comes after \<^verbatim>\<open>gas\<close> and
  \<^verbatim>\<open>isFakeTransaction\<close> and before \<^verbatim>\<open>from\<close>: an own property of \<^verbatim>\<open>callData\<close> replaces
  the one written before the spread, also when its value is \<^verbatim>\<open>undefined\<close> (\<^verbatim>\<open>CallData\<close>
  has \<^verbatim>\<open>gas\<close> and no \<^verbatim>\<open>isFakeTransaction\<close>), and \<^verbatim>\<open>from\<close> is written last.
  \<^verbatim>\<open>callData.from || this._defaultFromAddress\<close> takes the default for an absent, an
  undefined and an empty sender.
\<close>

definition fakeTxData :: "'l TraceCollectionSubprovider \<Rightarrow> CallData \<Rightarrow> MaybeFakeTxData" where
  "fakeTxData sp callData =
     \<lparr>from' =
        Some (case from' callData of
                None \<Rightarrow> defaultFromAddress sp
              | Some f \<Rightarrow> if f = [] then defaultFromAddress sp else f),
      to = to callData,
      gas =
        (case gas callData of
           Absent \<Rightarrow> Defined BLOCK_GAS_LIMIT
         | Undefined \<Rightarrow> Undefined
         | Defined g \<Rightarrow> Defined g),
      gasPrice = gasPrice callData,
      value' = value' callData,
      data = data callData,
      nonce = nonce callData,
      isFakeTransaction = Some True\<rparr>"

text \<open>
  Modelled from the spec: \<^verbatim>\<open>Web3Wrapper.sendTransactionAsync\<close> (web3-wrapper, not among the
  sources) on the provider engine that this subprovider is part of, which is the path of
  every \<^verbatim>\<open>eth_sendTransaction\<close> request, of the host as of the subprovider itself. The
  submitted transaction passes \<^verbatim>\<open>handleRequest\<close> like any other (line 219: "This
  transaction (and only it) is allowed to come through when the lock is locked"). The
  spec, 4.1: a request is forwarded unmodified, or "wrapped with a completion hook that
  performs trace capture after the underlying call completes, then invokes the original
  completion". The hook is given the node's answer, and the request
  completes with that answer once the hook has called its callback; a hook that raises
  never calls it, and the request stays pending. \<^verbatim>\<open>handleRequest\<close> never answers an
  \<^verbatim>\<open>eth_sendTransaction\<close> request with the hook of a call.
\<close>

definition sendTransactionAsync ::
    "('c, 'l) env \<Rightarrow> MaybeFakeTxData \<Rightarrow> ('c, 'l) world \<Rightarrow> string outcome \<times> ('c, 'l) world" where
  "sendTransactionAsync node txData w =
     (case handleRequest (subprovider w)
             \<lparr>method = ''eth_sendTransaction'', params = [txData]\<rparr> of
        Unmodified \<Rightarrow>
          (case eth_sendTransaction node txData (chainState w) of
             (res, c) \<Rightarrow> awaitResult res (w\<lparr>chainState := c\<rparr>))
      | OnTransactionSent boundTxData \<Rightarrow>
          (case eth_sendTransaction node txData (chainState w) of
             (res, c) \<Rightarrow>
               (case onTransactionSentAsync node boundTxData res (\<lambda>w'. w')
                       (w\<lparr>chainState := c\<rparr>) of
                  (Resolved u, w') \<Rightarrow> awaitResult res w'
                | (Rejected e, w') \<Rightarrow> (Pending, w')
                | (Pending, w') \<Rightarrow> (Pending, w')))
      | OnCallOrGasEstimateExecuted boundCallData \<Rightarrow> (Pending, w))"

definition awaitMined :: "('c, 'l) env \<Rightarrow> string \<Rightarrow> ('c, 'l) world \<Rightarrow> unit outcome \<times> ('c, 'l) world" where
  "awaitMined node h w =
     (case awaitTransactionMinedAsync node h (chainState w) of
        Some e \<Rightarrow> (Rejected e, w)
      | None \<Rightarrow> (Resolved (), w))"

text \<open>
  \<^verbatim>\<open>_recordCallOrGasEstimateTraceAsync(callData)\<close>. The spread of an undefined
  \<^verbatim>\<open>callData\<close> is empty, but \<^verbatim>\<open>callData.from\<close> then raises a TypeError, after the lock
  has been acquired and the snapshot taken.
\<close>

definition recordCallOrGasEstimateTraceAsync ::
    "('c, 'l) env \<Rightarrow> CallData option \<Rightarrow> ('c, 'l) world \<Rightarrow> unit outcome \<times> ('c, 'l) world" where
  "recordCallOrGasEstimateTraceAsync node boundCallData w =
     andThen (lock_acquire w)
       (\<lambda>u w1.
          andThen (startAsync node w1)
            (\<lambda>snapshotId w2.
               (case boundCallData of
                  None \<Rightarrow> (Rejected (Error ''TypeError''), w2)
                | Some callData \<Rightarrow>
                    andThen
                      (tryCatchNoop
                         (andThen
                            (sendTransactionAsync node (fakeTxData (subprovider w2) callData) w2)
                            (\<lambda>h w3. awaitMined node h w3)))
                      (\<lambda>u w4.
                         andThen (revertAsync node snapshotId w4)
                           (\<lambda>u w5. (Resolved (), lock_release w5))))))"

text \<open>
  \<^verbatim>\<open>_onCallOrGasEstimateExecutedAsync(callData, err, callResult, cb)\<close>; the answer of the
  underlying call is not read.
\<close>

definition onCallOrGasEstimateExecutedAsync ::
    "('c, 'l) env \<Rightarrow> CallData option \<Rightarrow> error option \<Rightarrow> string
      \<Rightarrow> (('c, 'l) world \<Rightarrow> ('c, 'l) world) \<Rightarrow> ('c, 'l) world
      \<Rightarrow> unit outcome \<times> ('c, 'l) world" where
  "onCallOrGasEstimateExecutedAsync node boundCallData err callResult cb w =
     andThen (recordCallOrGasEstimateTraceAsync node boundCallData w)
       (\<lambda>u w'. (Resolved (), cb w'))"

section \<open>What a run leaves unchanged\<close>

text \<open>
  \<open>onlyTracesAdded w w'\<close>: the world \<open>w'\<close> is \<open>w\<close> with trace infos appended to the
  registry and nothing else changed.
\<close>

definition onlyTracesAdded :: "('c, 'l) world \<Rightarrow> ('c, 'l) world \<Rightarrow> bool" where
  "onlyTracesAdded w w' \<longleftrightarrow>
     (\<exists>new. w' = w\<lparr>subprovider := (subprovider w)\<lparr>traceInfos := traceInfos (subprovider w) @ new\<rparr>\<rparr>)"

section \<open>The output contract of the trace extractor\<close>


section \<open>Concrete nodes, subproviders and payloads\<close>

text \<open>
  A node that mines every transaction as \<^verbatim>\<open>0xh1\<close>, answers every read, and whose extractor
  attributes the whole log to the root address; variants of it with one fault each and with
  a subcall; the world in the middle of a capture cycle; subproviders with every toggle
  on, with the transaction toggle off, and with the call and estimate toggles off.
\<close>

definition demoConfig :: TraceCollectionSubproviderConfig where
  "demoConfig =
     \<lparr>shouldCollectTransactionTraces = True, shouldCollectCallTraces = True,
      shouldCollectGasEstimateTraces = True\<rparr>"

definition callsOnlyConfig :: TraceCollectionSubproviderConfig where
  "callsOnlyConfig =
     \<lparr>shouldCollectTransactionTraces = False, shouldCollectCallTraces = True,
      shouldCollectGasEstimateTraces = True\<rparr>"

definition txOnlyConfig :: TraceCollectionSubproviderConfig where
  "txOnlyConfig =
     \<lparr>shouldCollectTransactionTraces = True, shouldCollectCallTraces = False,
      shouldCollectGasEstimateTraces = False\<rparr>"

definition demoSubprovider :: "nat TraceCollectionSubprovider" where
  "demoSubprovider = new_TraceCollectionSubprovider ''0xdef'' demoConfig"

definition callsOnlySubprovider :: "nat TraceCollectionSubprovider" where
  "callsOnlySubprovider = new_TraceCollectionSubprovider ''0xdef'' callsOnlyConfig"

definition txOnlySubprovider :: "nat TraceCollectionSubprovider" where
  "txOnlySubprovider = new_TraceCollectionSubprovider ''0xdef'' txOnlyConfig"

definition demoCall :: CallData where
  "demoCall =
     \<lparr>from' = None, to = Some ''0xaaa'', gas = Absent, gasPrice = None, value' = None,
      data = Some ''0x01'', nonce = None\<rparr>"

definition demoCallWithGas :: CallData where
  "demoCallWithGas =
     \<lparr>from' = Some ''0xbbb'', to = Some ''0xaaa'', gas = Defined 21000, gasPrice = None,
      value' = None, data = Some ''0x01'', nonce = None\<rparr>"

definition demoTx :: MaybeFakeTxData where
  "demoTx =
     \<lparr>from' = Some ''0xbbb'', to = Some ''0xaaa'', gas = Absent, gasPrice = None, value' = None,
      data = Some ''0x01'', nonce = None, isFakeTransaction = None\<rparr>"

definition demoDeployment :: MaybeFakeTxData where
  "demoDeployment =
     \<lparr>from' = Some ''0xbbb'', to = None, gas = Absent, gasPrice = None, value' = None,
      data = Some ''0x6001'', nonce = None, isFakeTransaction = None\<rparr>"

definition demoNode :: "(nat, nat) env" where
  "demoNode =
     \<lparr>getTracesByContractAddress = (\<lambda>structLogs root. [(root, structLogs)]),
      eth_sendTransaction = (\<lambda>txData c. (Inr ''0xh1'', Suc c)),
      awaitTransactionMinedAsync = (\<lambda>h c. None),
      getTransactionTraceAsync = (\<lambda>h c. Inr [1, 2, 3]),
      getContractCodeAsync = (\<lambda>a c. Inr ''0x6080''),
      getBlockWithTransactionDataAsync = (\<lambda>c. Inr []),
      evm_snapshot_fault = (\<lambda>c. None),
      evm_revert_fault = (\<lambda>c. None)\<rparr>"


definition traceFaultNode :: "(nat, nat) env" where
  "traceFaultNode =
     demoNode\<lparr>getTransactionTraceAsync := (\<lambda>h c. Inl (Error ''trace unavailable''))\<rparr>"

definition codeFaultNode :: "(nat, nat) env" where
  "codeFaultNode =
     demoNode\<lparr>getContractCodeAsync := (\<lambda>a c. Inl (Error ''code unavailable''))\<rparr>"

definition miningFaultNode :: "(nat, nat) env" where
  "miningFaultNode =
     demoNode\<lparr>awaitTransactionMinedAsync := (\<lambda>h c. Some (Error ''not mined''))\<rparr>"

definition snapshotFaultNode :: "(nat, nat) env" where
  "snapshotFaultNode = demoNode\<lparr>evm_snapshot_fault := (\<lambda>c. Some (Error ''snapshot failed''))\<rparr>"

definition rejectingNode :: "(nat, nat) env" where
  "rejectingNode =
     demoNode\<lparr>eth_sendTransaction := (\<lambda>txData c. (Inl (Error ''revert''), Suc c)),
       getBlockWithTransactionDataAsync := (\<lambda>c. Inr [\<lparr>input = ''0x01'', hash = ''0xh1''\<rparr>])\<rparr>"

definition demoWorld :: "(nat, nat) world" where
  "demoWorld = \<lparr>subprovider = demoSubprovider, chainState = 7, snapshots = [], completed = 0\<rparr>"

definition callsOnlyWorld :: "(nat, nat) world" where
  "callsOnlyWorld =
     \<lparr>subprovider = callsOnlySubprovider, chainState = 7, snapshots = [], completed = 0\<rparr>"

definition midCycleWorld :: "(nat, nat) world" where
  "midCycleWorld =
     \<lparr>subprovider = demoSubprovider\<lparr>lock := True\<rparr>, chainState = 7, snapshots = [7],
      completed = 0\<rparr>"

section \<open>Sequencing and frame lemmas\<close>

lemma andThen_simps:
  "andThen (Resolved x, w) k = k x w"
  "andThen (Rejected e, w) k = (Rejected e, w)"
  "andThen (Pending, w) k = (Pending, w)"
  by (simp_all add: andThen_def)

lemma andThen_cases:
  assumes "andThen r k = (out, w')"
  obtains (resolved) x w1 where "r = (Resolved x, w1)" and "k x w1 = (out, w')"
    | (rejected) e where "r = (Rejected e, w')" and "out = Rejected e"
    | (pending) "r = (Pending, w')" and "out = Pending"
proof (cases r)
  case (Pair o1 w1)
  with assms show ?thesis
    by (cases o1) (auto simp: andThen_simps intro: resolved rejected pending)
qed

lemma awaitMined_world: "awaitMined node h w = (out, w') \<Longrightarrow> w' = w"
  by (auto simp: awaitMined_def split: option.splits)

lemma onlyTracesAdded_refl: "onlyTracesAdded w w"
  unfolding onlyTracesAdded_def by (rule exI [of _ "[]"]) simp

lemma onlyTracesAdded_trans:
  "onlyTracesAdded w w' \<Longrightarrow> onlyTracesAdded w' w'' \<Longrightarrow> onlyTracesAdded w w''"
  unfolding onlyTracesAdded_def by auto

lemma onlyTracesAdded_push: "onlyTracesAdded w (push_traceInfo traceInfo w)"
  unfolding onlyTracesAdded_def push_traceInfo_def by blast

lemma onlyTracesAdded_frame:
  assumes "onlyTracesAdded w w'"
  shows "chainState w' = chainState w" and "snapshots w' = snapshots w"
    and "completed w' = completed w" and "lock (subprovider w') = lock (subprovider w)"
    and "isEnabled (subprovider w') = isEnabled (subprovider w)"
    and "config (subprovider w') = config (subprovider w)"
    and "defaultFromAddress (subprovider w') = defaultFromAddress (subprovider w)"
    and "length (traceInfos (subprovider w)) \<le> length (traceInfos (subprovider w'))"
  using assms unfolding onlyTracesAdded_def by auto

lemma lock_release_free:
  "\<not> lock sp \<Longrightarrow> sp\<lparr>traceInfos := ts, lock := False\<rparr> = sp\<lparr>traceInfos := ts\<rparr>"
  by (cases sp) simp

lemma push_traceInfo_chainState: "chainState (push_traceInfo traceInfo w) = chainState w"
  by (simp add: push_traceInfo_def)

lemma push_traceInfo_append:
  "(push_traceInfo traceInfo w)
     \<lparr>subprovider := (subprovider (push_traceInfo traceInfo w))
        \<lparr>traceInfos := traceInfos (subprovider (push_traceInfo traceInfo w)) @ infos\<rparr>\<rparr>
   = w\<lparr>subprovider := (subprovider w)
        \<lparr>traceInfos := traceInfos (subprovider w) @ traceInfo # infos\<rparr>\<rparr>"
  by (simp add: push_traceInfo_def)

lemma fakeTxData_isFake: "isFakeTransaction (fakeTxData sp callData) = Some True"
  by (simp add: fakeTxData_def)

lemma fakeTxData_lock: "fakeTxData (sp\<lparr>lock := b\<rparr>) callData = fakeTxData sp callData"
  by (simp add: fakeTxData_def split: option.splits)

lemma handleRequest_sendTransaction:
  "handleRequest sp \<lparr>method = ''eth_sendTransaction'', params = [txData]\<rparr> =
     (if isEnabled sp \<and> shouldCollectTransactionTraces (config sp)
      then OnTransactionSent (Some txData) else Unmodified)"
  by (simp add: handleRequest_def first_param_def)

subsection \<open>Recording a trace only appends to the registry\<close>

lemma recordSubcallsOfNewContract_frame:
  "recordSubcallsOfNewContract node dat h tbl w = (out, w') \<Longrightarrow> onlyTracesAdded w w'"
proof (induction tbl arbitrary: w)
  case Nil
  then show ?case by (simp add: onlyTracesAdded_refl)
next
  case (Cons entry rest)
  obtain a t where entry: "entry = (a, t)" by (cases entry)
  show ?case
  proof (cases "a = ''NEW_CONTRACT''")
    case True
    with Cons.prems entry
    have "onlyTracesAdded (push_traceInfo (TraceInfoNewContract t h a dat) w) w'"
      by (intro Cons.IH) simp
    then show ?thesis by (rule onlyTracesAdded_trans [OF onlyTracesAdded_push])
  next
    case False
    show ?thesis
    proof (cases "getContractCodeAsync node a (chainState w)")
      case (Inl e)
      with Cons.prems entry False have "w' = w" by simp
      then show ?thesis by (simp add: onlyTracesAdded_refl)
    next
      case (Inr code)
      with Cons.prems entry False
      have "onlyTracesAdded (push_traceInfo (TraceInfoExistingContract t h a code) w) w'"
        by (intro Cons.IH) simp
      then show ?thesis by (rule onlyTracesAdded_trans [OF onlyTracesAdded_push])
    qed
  qed
qed

lemma recordSubcallsOfExistingContract_frame:
  "recordSubcallsOfExistingContract node h tbl w = (out, w') \<Longrightarrow> onlyTracesAdded w w'"
proof (induction tbl arbitrary: w)
  case Nil
  then show ?case by (simp add: onlyTracesAdded_refl)
next
  case (Cons entry rest)
  obtain a t where entry: "entry = (a, t)" by (cases entry)
  show ?case
  proof (cases "getContractCodeAsync node a (chainState w)")
    case (Inl e)
    with Cons.prems entry have "w' = w" by simp
    then show ?thesis by (simp add: onlyTracesAdded_refl)
  next
    case (Inr code)
    with Cons.prems entry
    have "onlyTracesAdded (push_traceInfo (TraceInfoExistingContract t h a code) w) w'"
      by (intro Cons.IH) simp
    then show ?thesis by (rule onlyTracesAdded_trans [OF onlyTracesAdded_push])
  qed
qed

lemma recordTxTraceAsync_frame:
  "recordTxTraceAsync node addr dat h w = (out, w') \<Longrightarrow> onlyTracesAdded w w'"
  unfolding recordTxTraceAsync_def
  by (auto simp: Let_def onlyTracesAdded_refl split: option.splits sum.splits if_splits
        dest: recordSubcallsOfNewContract_frame recordSubcallsOfExistingContract_frame)

lemma recordTransactionsOfLatestBlock_frame:
  "recordTransactionsOfLatestBlock node addr txs w = (out, w') \<Longrightarrow> onlyTracesAdded w w'"
proof (induction txs arbitrary: w)
  case Nil
  then show ?case by (simp add: onlyTracesAdded_refl)
next
  case (Cons transaction rest)
  obtain out1 w1 where step:
    "recordTxTraceAsync node addr (Some (input transaction)) (hash transaction) w = (out1, w1)"
    by (cases "recordTxTraceAsync node addr (Some (input transaction)) (hash transaction) w")
  have first: "onlyTracesAdded w w1" using step by (rule recordTxTraceAsync_frame)
  show ?case
  proof (cases out1)
    case (Resolved u)
    with Cons.prems step have "recordTransactionsOfLatestBlock node addr rest w1 = (out, w')"
      by simp
    then have "onlyTracesAdded w1 w'" by (rule Cons.IH)
    with first show ?thesis by (rule onlyTracesAdded_trans)
  next
    case (Rejected e)
    with Cons.prems step have "w' = w1" by simp
    with first show ?thesis by simp
  next
    case Pending
    with Cons.prems step have "w' = w1" by simp
    with first show ?thesis by simp
  qed
qed

lemma captureBody_frame:
  assumes "(case res of
              Inr h \<Rightarrow> recordTxTraceAsync node addr dat h w1
            | Inl err \<Rightarrow>
                andThen (awaitResult (getBlockWithTransactionDataAsync node (chainState w1)) w1)
                  (\<lambda>transactions w2.
                     recordTransactionsOfLatestBlock node addr transactions w2)) = (out, w')"
  shows "onlyTracesAdded w1 w'"
proof (cases res)
  case (Inr h)
  with assms show ?thesis by (simp add: recordTxTraceAsync_frame)
next
  case (Inl err)
  show ?thesis
  proof (cases "getBlockWithTransactionDataAsync node (chainState w1)")
    case (Inl e)
    with assms \<open>res = Inl err\<close> have "w' = w1"
      by (simp add: awaitResult_def andThen_simps)
    then show ?thesis by (simp add: onlyTracesAdded_refl)
  next
    case (Inr transactions)
    with assms \<open>res = Inl err\<close>
    have "recordTransactionsOfLatestBlock node addr transactions w1 = (out, w')"
      by (simp add: awaitResult_def andThen_simps)
    then show ?thesis by (rule recordTransactionsOfLatestBlock_frame)
  qed
qed

subsection \<open>Recording a trace when every fetch succeeds\<close>

lemma recordSubcallsOfExistingContract_fetched:
  assumes "\<forall>(a, t) \<in> set tbl. getContractCodeAsync node a (chainState w) = Inr (codeAt a)"
  shows "recordSubcallsOfExistingContract node h tbl w =
     (Resolved (),
      w\<lparr>subprovider := (subprovider w)
         \<lparr>traceInfos := traceInfos (subprovider w) @
            map (\<lambda>(a, t). TraceInfoExistingContract t h a (codeAt a)) tbl\<rparr>\<rparr>)"
  using assms
proof (induction tbl arbitrary: w)
  case Nil
  then show ?case by simp
next
  case (Cons entry rest)
  obtain a t where entry: "entry = (a, t)" by (cases entry)
  let ?w1 = "push_traceInfo (TraceInfoExistingContract t h a (codeAt a)) w"
  from Cons.prems entry have code: "getContractCodeAsync node a (chainState w) = Inr (codeAt a)"
    by simp
  from Cons.prems
  have "\<forall>(a, t) \<in> set rest. getContractCodeAsync node a (chainState ?w1) = Inr (codeAt a)"
    by (simp add: push_traceInfo_chainState)
  then have "recordSubcallsOfExistingContract node h rest ?w1 =
     (Resolved (),
      ?w1\<lparr>subprovider := (subprovider ?w1)
         \<lparr>traceInfos := traceInfos (subprovider ?w1) @
            map (\<lambda>(a, t). TraceInfoExistingContract t h a (codeAt a)) rest\<rparr>\<rparr>)"
    by (rule Cons.IH)
  with entry code show ?case by (simp add: push_traceInfo_append)
qed

lemma recordSubcallsOfNewContract_fetched:
  assumes "\<forall>(a, t) \<in> set tbl.
             a \<noteq> ''NEW_CONTRACT'' \<longrightarrow>
             getContractCodeAsync node a (chainState w) = Inr (codeAt a)"
  shows "recordSubcallsOfNewContract node dat h tbl w =
     (Resolved (),
      w\<lparr>subprovider := (subprovider w)
         \<lparr>traceInfos := traceInfos (subprovider w) @
            map (\<lambda>(a, t). if a = ''NEW_CONTRACT'' then TraceInfoNewContract t h a dat
                           else TraceInfoExistingContract t h a (codeAt a)) tbl\<rparr>\<rparr>)"
  using assms
proof (induction tbl arbitrary: w)
  case Nil
  then show ?case by simp
next
  case (Cons entry rest)
  obtain a t where entry: "entry = (a, t)" by (cases entry)
  let ?ti = "if a = ''NEW_CONTRACT'' then TraceInfoNewContract t h a dat
             else TraceInfoExistingContract t h a (codeAt a)"
  let ?w1 = "push_traceInfo ?ti w"
  from Cons.prems entry
  have code: "a \<noteq> ''NEW_CONTRACT'' \<Longrightarrow> getContractCodeAsync node a (chainState w) = Inr (codeAt a)"
    by simp
  from Cons.prems
  have "\<forall>(a, t) \<in> set rest.
          a \<noteq> ''NEW_CONTRACT'' \<longrightarrow>
          getContractCodeAsync node a (chainState ?w1) = Inr (codeAt a)"
    by (simp add: push_traceInfo_chainState)
  then have "recordSubcallsOfNewContract node dat h rest ?w1 =
     (Resolved (),
      ?w1\<lparr>subprovider := (subprovider ?w1)
         \<lparr>traceInfos := traceInfos (subprovider ?w1) @
            map (\<lambda>(a, t). if a = ''NEW_CONTRACT'' then TraceInfoNewContract t h a dat
                           else TraceInfoExistingContract t h a (codeAt a)) rest\<rparr>\<rparr>)"
    by (rule Cons.IH)
  with entry code show ?case
    by (cases "a = ''NEW_CONTRACT''") (simp_all add: push_traceInfo_append)
qed

lemma recordTxTraceAsync_fetched:
  assumes mined: "awaitTransactionMinedAsync node h (chainState w) = None"
    and trace: "getTransactionTraceAsync node h (chainState w) = Inr structLogs"
    and codes: "\<forall>(a, t) \<in> set (getTracesByContractAddress node structLogs root).
                  \<not> (root = NEW_CONTRACT \<and> a = NEW_CONTRACT) \<longrightarrow>
                  getContractCodeAsync node a (chainState w) = Inr (codeAt a)"
  shows "recordTxTraceAsync node root dat h w =
     (Resolved (),
      w\<lparr>subprovider := (subprovider w)
         \<lparr>traceInfos := traceInfos (subprovider w) @
            map (\<lambda>(a, t). if root = NEW_CONTRACT \<and> a = NEW_CONTRACT
                           then TraceInfoNewContract t h a dat
                           else TraceInfoExistingContract t h a (codeAt a))
              (getTracesByContractAddress node structLogs root)\<rparr>\<rparr>)"
proof (cases "root = NEW_CONTRACT")
  case True
  from codes True
  have "\<forall>(a, t) \<in> set (getTracesByContractAddress node structLogs root).
          a \<noteq> ''NEW_CONTRACT'' \<longrightarrow> getContractCodeAsync node a (chainState w) = Inr (codeAt a)"
    by (auto simp: NEW_CONTRACT_def)
  then have "recordSubcallsOfNewContract node dat h
               (getTracesByContractAddress node structLogs root) w =
     (Resolved (),
      w\<lparr>subprovider := (subprovider w)
         \<lparr>traceInfos := traceInfos (subprovider w) @
            map (\<lambda>(a, t). if a = ''NEW_CONTRACT'' then TraceInfoNewContract t h a dat
                           else TraceInfoExistingContract t h a (codeAt a))
              (getTracesByContractAddress node structLogs root)\<rparr>\<rparr>)"
    by (rule recordSubcallsOfNewContract_fetched)
  with mined trace True show ?thesis
    by (simp add: recordTxTraceAsync_def NEW_CONTRACT_def)
next
  case False
  from codes False
  have "\<forall>(a, t) \<in> set (getTracesByContractAddress node structLogs root).
          getContractCodeAsync node a (chainState w) = Inr (codeAt a)"
    by auto
  then have "recordSubcallsOfExistingContract node h
               (getTracesByContractAddress node structLogs root) w =
     (Resolved (),
      w\<lparr>subprovider := (subprovider w)
         \<lparr>traceInfos := traceInfos (subprovider w) @
            map (\<lambda>(a, t). TraceInfoExistingContract t h a (codeAt a))
              (getTracesByContractAddress node structLogs root)\<rparr>\<rparr>)"
    by (rule recordSubcallsOfExistingContract_fetched)
  with mined trace False show ?thesis
    by (simp add: recordTxTraceAsync_def)
qed

subsection \<open>The hook of a sent transaction\<close>

lemma onTransactionSentAsync_marked:
  assumes fake: "isFakeTransaction txData = Some True"
    and run: "onTransactionSentAsync node (Some txData) res cb w = (out, w')"
  shows "(\<exists>w3. out = Resolved () \<and> w' = cb w3 \<and> onlyTracesAdded w w3)
         \<or> (out \<noteq> Resolved () \<and> onlyTracesAdded w w')"
proof -
  from run fake have "andThen
      (case res of
         Inr h \<Rightarrow> recordTxTraceAsync node (toAddress txData) (data txData) h w
       | Inl err \<Rightarrow>
           andThen (awaitResult (getBlockWithTransactionDataAsync node (chainState w)) w)
             (\<lambda>transactions w2.
                recordTransactionsOfLatestBlock node (toAddress txData) transactions w2))
      (\<lambda>u w3. (Resolved (), cb w3)) = (out, w')"
    by (simp add: onTransactionSentAsync_def andThen_simps)
  then show ?thesis
  proof (cases rule: andThen_cases)
    case (resolved x w3)
    from resolved(1) have "onlyTracesAdded w w3" by (rule captureBody_frame)
    with resolved(2) show ?thesis by auto
  next
    case (rejected e)
    then show ?thesis by (simp add: captureBody_frame)
  next
    case pending
    then show ?thesis by (simp add: captureBody_frame)
  qed
qed

lemma onTransactionSentAsync_genuine:
  assumes genuine: "isFakeTransaction txData \<noteq> Some True"
    and free: "\<not> lock (subprovider w)"
    and run: "onTransactionSentAsync node (Some txData) res cb w = (out, w')"
  shows "(\<exists>w3. out = Resolved () \<and> w' = cb (lock_release w3) \<and>
             onlyTracesAdded (w\<lparr>subprovider := (subprovider w)\<lparr>lock := True\<rparr>\<rparr>) w3)
         \<or> (out \<noteq> Resolved () \<and>
             onlyTracesAdded (w\<lparr>subprovider := (subprovider w)\<lparr>lock := True\<rparr>\<rparr>) w')"
proof -
  let ?w1 = "w\<lparr>subprovider := (subprovider w)\<lparr>lock := True\<rparr>\<rparr>"
  from run genuine free have "andThen
      (case res of
         Inr h \<Rightarrow> recordTxTraceAsync node (toAddress txData) (data txData) h ?w1
       | Inl err \<Rightarrow>
           andThen (awaitResult (getBlockWithTransactionDataAsync node (chainState ?w1)) ?w1)
             (\<lambda>transactions w2.
                recordTransactionsOfLatestBlock node (toAddress txData) transactions w2))
      (\<lambda>u w3. (Resolved (), cb (lock_release w3))) = (out, w')"
    by (simp add: onTransactionSentAsync_def lock_acquire_def andThen_simps)
  then show ?thesis
  proof (cases rule: andThen_cases)
    case (resolved x w3)
    from resolved(1) have "onlyTracesAdded ?w1 w3" by (rule captureBody_frame)
    with resolved(2) show ?thesis by auto
  next
    case (rejected e)
    from rejected(1) have "onlyTracesAdded ?w1 w'" by (rule captureBody_frame)
    with rejected(2) show ?thesis by simp
  next
    case pending
    from pending(1) have "onlyTracesAdded ?w1 w'" by (rule captureBody_frame)
    with pending(2) show ?thesis by simp
  qed
qed

lemma onTransactionSentAsync_completed:
  "completed (snd (onTransactionSentAsync node boundTxData res complete w)) =
     completed w + (if fst (onTransactionSentAsync node boundTxData res complete w) = Resolved ()
                    then 1 else 0)"
proof (cases boundTxData)
  case None
  then show ?thesis by (simp add: onTransactionSentAsync_def)
next
  case (Some txData)
  obtain out w' where run: "onTransactionSentAsync node (Some txData) res complete w = (out, w')"
    by (cases "onTransactionSentAsync node (Some txData) res complete w")
  show ?thesis
  proof (cases "isFakeTransaction txData = Some True")
    case True
    from onTransactionSentAsync_marked [OF True run] run Some show ?thesis
      by (auto simp: complete_def dest: onlyTracesAdded_frame(3))
  next
    case genuine: False
    show ?thesis
    proof (cases "lock (subprovider w)")
      case True
      with genuine Some show ?thesis
        by (simp add: onTransactionSentAsync_def lock_acquire_def andThen_simps)
    next
      case False
      from onTransactionSentAsync_genuine [OF genuine False run] run Some show ?thesis
        by (auto simp: complete_def lock_release_def dest: onlyTracesAdded_frame(3))
    qed
  qed
qed

subsection \<open>The capture cycle\<close>

lemma sendTransactionAsync_frame:
  assumes fake: "isFakeTransaction txData = Some True"
    and run: "sendTransactionAsync node txData w = (out, w')"
  shows "onlyTracesAdded (w\<lparr>chainState := snd (eth_sendTransaction node txData (chainState w))\<rparr>) w'"
proof -
  obtain res c where exec: "eth_sendTransaction node txData (chainState w) = (res, c)"
    by (cases "eth_sendTransaction node txData (chainState w)")
  show ?thesis
  proof (cases "isEnabled (subprovider w) \<and> shouldCollectTransactionTraces (config (subprovider w))")
    case False
    with run exec have "w' = w\<lparr>chainState := c\<rparr>"
      by (auto simp: sendTransactionAsync_def handleRequest_sendTransaction awaitResult_def
            split: sum.splits)
    with exec show ?thesis by (simp add: onlyTracesAdded_refl)
  next
    case True
    obtain out1 w1 where hook:
      "onTransactionSentAsync node (Some txData) res (\<lambda>w'. w') (w\<lparr>chainState := c\<rparr>) = (out1, w1)"
      by (cases "onTransactionSentAsync node (Some txData) res (\<lambda>w'. w') (w\<lparr>chainState := c\<rparr>)")
    from onTransactionSentAsync_marked [OF fake hook]
    have "onlyTracesAdded (w\<lparr>chainState := c\<rparr>) w1"
      by auto
    moreover from run exec True hook have "w' = w1"
      by (cases out1)
        (auto simp: sendTransactionAsync_def handleRequest_sendTransaction awaitResult_def
           split: sum.splits)
    ultimately show ?thesis using exec by simp
  qed
qed

lemma sendTransactionAsync_unwrapped:
  assumes "\<not> shouldCollectTransactionTraces (config (subprovider w))"
  shows "snd (sendTransactionAsync node txData w)
           = w\<lparr>chainState := snd (eth_sendTransaction node txData (chainState w))\<rparr>"
  using assms
  by (cases "eth_sendTransaction node txData (chainState w)")
    (auto simp: sendTransactionAsync_def handleRequest_sendTransaction awaitResult_def
       split: sum.splits)

lemma tryBlock_frame:
  assumes fake: "isFakeTransaction txData = Some True"
    and run: "andThen (sendTransactionAsync node txData w) (\<lambda>h w3. awaitMined node h w3) = (out, w')"
  shows "onlyTracesAdded (w\<lparr>chainState := snd (eth_sendTransaction node txData (chainState w))\<rparr>) w'"
  using run
proof (cases rule: andThen_cases)
  case (resolved h w1)
  from fake resolved(1) have "onlyTracesAdded (w\<lparr>chainState := snd (eth_sendTransaction node txData (chainState w))\<rparr>) w1"
    by (rule sendTransactionAsync_frame)
  with awaitMined_world [OF resolved(2)] show ?thesis by simp
next
  case (rejected e)
  with fake show ?thesis by (simp add: sendTransactionAsync_frame)
next
  case pending
  with fake show ?thesis by (simp add: sendTransactionAsync_frame)
qed

lemma recordCallOrGasEstimateTraceAsync_cases:
  assumes run: "recordCallOrGasEstimateTraceAsync node boundCallData w = (out, w')"
  shows "(out = Resolved () \<and> \<not> lock (subprovider w) \<and> onlyTracesAdded w w')
         \<or> (out \<noteq> Resolved () \<and> lock (subprovider w') \<and> completed w' = completed w)"
proof (cases "lock (subprovider w)")
  case True
  with run show ?thesis
    by (simp add: recordCallOrGasEstimateTraceAsync_def lock_acquire_def andThen_simps)
next
  case free: False
  let ?w1 = "w\<lparr>subprovider := (subprovider w)\<lparr>lock := True\<rparr>\<rparr>"
  show ?thesis
  proof (cases "evm_snapshot_fault node (chainState w)")
    case (Some e)
    with run free show ?thesis
      by (auto simp: recordCallOrGasEstimateTraceAsync_def lock_acquire_def startAsync_def
            andThen_simps)
  next
    case None
    let ?w2 = "?w1\<lparr>snapshots := snapshots w @ [chainState w]\<rparr>"
    let ?id = "Suc (length (snapshots w))"
    show ?thesis
    proof (cases boundCallData)
      case noData: None
      with run free \<open>evm_snapshot_fault node (chainState w) = None\<close> show ?thesis
        by (auto simp: recordCallOrGasEstimateTraceAsync_def lock_acquire_def startAsync_def
              andThen_simps)
    next
      case (Some callData)
      let ?fake = "fakeTxData (subprovider ?w2) callData"
      from run free None Some have rest:
        "andThen
           (tryCatchNoop
              (andThen (sendTransactionAsync node ?fake ?w2) (\<lambda>h w3. awaitMined node h w3)))
           (\<lambda>u w4. andThen (revertAsync node ?id w4) (\<lambda>u w5. (Resolved (), lock_release w5)))
         = (out, w')"
        by (simp add: recordCallOrGasEstimateTraceAsync_def lock_acquire_def startAsync_def
              andThen_simps)
      obtain out3 w3 where tryBlk:
        "andThen (sendTransactionAsync node ?fake ?w2) (\<lambda>h w3. awaitMined node h w3) = (out3, w3)"
        by (cases "andThen (sendTransactionAsync node ?fake ?w2) (\<lambda>h w3. awaitMined node h w3)")
      have frame3: "onlyTracesAdded
          (?w2\<lparr>chainState := snd (eth_sendTransaction node ?fake (chainState ?w2))\<rparr>) w3"
        using fakeTxData_isFake tryBlk by (rule tryBlock_frame)
      then obtain new where w3: "w3 = ?w2\<lparr>chainState := snd (eth_sendTransaction node ?fake (chainState ?w2)),
          subprovider := (subprovider ?w2)\<lparr>traceInfos := traceInfos (subprovider ?w2) @ new\<rparr>\<rparr>"
        unfolding onlyTracesAdded_def by auto
      show ?thesis
      proof (cases "out3 = Pending")
        case True
        with rest tryBlk have "out = Pending" "w' = w3"
          by (simp_all add: tryCatchNoop_def andThen_simps)
        with w3 show ?thesis by simp
      next
        case False
        with tryBlk have "tryCatchNoop (out3, w3) = (Resolved (), w3)"
          by (cases out3) (simp_all add: tryCatchNoop_def)
        with rest tryBlk have revert:
          "andThen (revertAsync node ?id w3) (\<lambda>u w5. (Resolved (), lock_release w5)) = (out, w')"
          by (simp add: andThen_simps)
        show ?thesis
        proof (cases "evm_revert_fault node (chainState w3)")
          case (Some e)
          with revert have "out = Rejected e" "w' = w3"
            by (simp_all add: revertAsync_def andThen_simps)
          with w3 show ?thesis by simp
        next
          case None
          with revert w3 have "out = Resolved ()"
            and "w' = w\<lparr>subprovider := (subprovider w)\<lparr>traceInfos := traceInfos (subprovider w) @ new\<rparr>\<rparr>"
            using free
            by (simp_all add: revertAsync_def andThen_simps lock_release_def lock_release_free)
          with free show ?thesis unfolding onlyTracesAdded_def by blast
        qed
      qed
    qed
  qed
qed

lemma onCallOrGasEstimateExecutedAsync_completed:
  "completed (snd (onCallOrGasEstimateExecutedAsync node boundCallData err callResult complete w)) =
     completed w +
     (if fst (onCallOrGasEstimateExecutedAsync node boundCallData err callResult complete w)
           = Resolved ()
      then 1 else 0)"
proof -
  obtain out w' where run: "recordCallOrGasEstimateTraceAsync node boundCallData w = (out, w')"
    by (cases "recordCallOrGasEstimateTraceAsync node boundCallData w")
  from recordCallOrGasEstimateTraceAsync_cases [OF run] show ?thesis
  proof
    assume "out = Resolved () \<and> \<not> lock (subprovider w) \<and> onlyTracesAdded w w'"
    with run show ?thesis
      by (simp add: onCallOrGasEstimateExecutedAsync_def andThen_simps complete_def
            onlyTracesAdded_frame(3))
  next
    assume "out \<noteq> Resolved () \<and> lock (subprovider w') \<and> completed w' = completed w"
    with run show ?thesis
      by (cases out) (simp_all add: onCallOrGasEstimateExecutedAsync_def andThen_simps)
  qed
qed

lemma captureCycle_success:
  assumes enabled: "isEnabled (subprovider w)"
    and toggle: "shouldCollectTransactionTraces (config (subprovider w))"
    and free: "\<not> lock (subprovider w)"
    and snap: "evm_snapshot_fault node (chainState w) = None"
    and sent: "eth_sendTransaction node (fakeTxData (subprovider w) callData) (chainState w)
                 = (Inr h, c)"
    and mined: "awaitTransactionMinedAsync node h c = None"
    and trace: "getTransactionTraceAsync node h c = Inr structLogs"
    and codes: "\<forall>(a, t) \<in> set (getTracesByContractAddress node structLogs
                                   (toAddress (fakeTxData (subprovider w) callData))).
                  \<not> (toAddress (fakeTxData (subprovider w) callData) = NEW_CONTRACT
                     \<and> a = NEW_CONTRACT) \<longrightarrow>
                  getContractCodeAsync node a c = Inr (codeAt a)"
    and revert: "evm_revert_fault node c = None"
  shows "recordCallOrGasEstimateTraceAsync node (Some callData) w =
     (Resolved (),
      w\<lparr>subprovider := (subprovider w)
         \<lparr>traceInfos := traceInfos (subprovider w) @
            map (\<lambda>(a, t). if toAddress (fakeTxData (subprovider w) callData) = NEW_CONTRACT
                              \<and> a = NEW_CONTRACT
                           then TraceInfoNewContract t h a (data callData)
                           else TraceInfoExistingContract t h a (codeAt a))
              (getTracesByContractAddress node structLogs
                 (toAddress (fakeTxData (subprovider w) callData)))\<rparr>\<rparr>)"
proof -
  let ?fake = "fakeTxData (subprovider w) callData"
  let ?root = "toAddress ?fake"
  let ?new = "map (\<lambda>(a, t). if ?root = NEW_CONTRACT \<and> a = NEW_CONTRACT
                              then TraceInfoNewContract t h a (data callData)
                              else TraceInfoExistingContract t h a (codeAt a))
                (getTracesByContractAddress node structLogs ?root)"
  let ?w2 = "w\<lparr>subprovider := (subprovider w)\<lparr>lock := True\<rparr>,
               snapshots := snapshots w @ [chainState w]\<rparr>"
  let ?w3 = "?w2\<lparr>chainState := c\<rparr>"
  let ?w4 = "?w3\<lparr>subprovider := (subprovider ?w3)
               \<lparr>traceInfos := traceInfos (subprovider ?w3) @ ?new\<rparr>\<rparr>"
  have dat: "data ?fake = data callData" by (simp add: fakeTxData_def)
  have "recordTxTraceAsync node ?root (data ?fake) h ?w3 = (Resolved (), ?w4)"
    unfolding dat using mined trace codes
    by (intro recordTxTraceAsync_fetched) simp_all
  then have hook: "onTransactionSentAsync node (Some ?fake) (Inr h) (\<lambda>w'. w') ?w3
      = (Resolved (), ?w4)"
    by (simp add: onTransactionSentAsync_def fakeTxData_isFake andThen_simps)
  have send: "sendTransactionAsync node ?fake ?w2 = (Resolved h, ?w4)"
    using enabled toggle sent hook
    by (simp add: sendTransactionAsync_def handleRequest_sendTransaction awaitResult_def)
  have tryBlock: "tryCatchNoop
      (andThen (sendTransactionAsync node ?fake ?w2) (\<lambda>h w3. awaitMined node h w3))
    = (Resolved (), ?w4)"
    using send mined by (simp add: andThen_simps awaitMined_def tryCatchNoop_def)
  have reverted: "revertAsync node (Suc (length (snapshots w))) ?w4 =
      (Resolved (),
       ?w4\<lparr>chainState := chainState w, snapshots := snapshots w\<rparr>)"
    using revert by (simp add: revertAsync_def)
  have "recordCallOrGasEstimateTraceAsync node (Some callData) w =
      (Resolved (), lock_release (?w4\<lparr>chainState := chainState w, snapshots := snapshots w\<rparr>))"
    using free snap tryBlock reverted
    by (simp add: recordCallOrGasEstimateTraceAsync_def lock_acquire_def startAsync_def
          andThen_simps fakeTxData_lock)
  moreover have "lock_release (?w4\<lparr>chainState := chainState w, snapshots := snapshots w\<rparr>)
      = w\<lparr>subprovider := (subprovider w)\<lparr>traceInfos := traceInfos (subprovider w) @ ?new\<rparr>\<rparr>"
    using free by (simp add: lock_release_def lock_release_free)
  ultimately show ?thesis by simp
qed

lemma captureCycle_unwrapped:
  assumes off: "\<not> shouldCollectTransactionTraces (config (subprovider w))"
    and run: "recordCallOrGasEstimateTraceAsync node boundCallData w = (out, w')"
  shows "traceInfos (subprovider w') = traceInfos (subprovider w)"
proof (cases "lock (subprovider w)")
  case True
  with run show ?thesis
    by (simp add: recordCallOrGasEstimateTraceAsync_def lock_acquire_def andThen_simps)
next
  case free: False
  let ?w1 = "w\<lparr>subprovider := (subprovider w)\<lparr>lock := True\<rparr>\<rparr>"
  show ?thesis
  proof (cases "evm_snapshot_fault node (chainState w)")
    case (Some e)
    with run free show ?thesis
      by (auto simp: recordCallOrGasEstimateTraceAsync_def lock_acquire_def startAsync_def
            andThen_simps)
  next
    case None
    let ?w2 = "?w1\<lparr>snapshots := snapshots w @ [chainState w]\<rparr>"
    let ?id = "Suc (length (snapshots w))"
    show ?thesis
    proof (cases boundCallData)
      case noData: None
      with run free \<open>evm_snapshot_fault node (chainState w) = None\<close> show ?thesis
        by (auto simp: recordCallOrGasEstimateTraceAsync_def lock_acquire_def startAsync_def
              andThen_simps)
    next
      case (Some callData)
      let ?fake = "fakeTxData (subprovider ?w2) callData"
      from run free None Some have rest:
        "andThen
           (tryCatchNoop
              (andThen (sendTransactionAsync node ?fake ?w2) (\<lambda>h w3. awaitMined node h w3)))
           (\<lambda>u w4. andThen (revertAsync node ?id w4) (\<lambda>u w5. (Resolved (), lock_release w5)))
         = (out, w')"
        by (simp add: recordCallOrGasEstimateTraceAsync_def lock_acquire_def startAsync_def
              andThen_simps)
      obtain out3 w3 where tryBlk:
        "andThen (sendTransactionAsync node ?fake ?w2) (\<lambda>h w3. awaitMined node h w3) = (out3, w3)"
        by (cases "andThen (sendTransactionAsync node ?fake ?w2) (\<lambda>h w3. awaitMined node h w3)")
      have off2: "\<not> shouldCollectTransactionTraces (config (subprovider ?w2))"
        using off by simp
      have "traceInfos (subprovider (snd (sendTransactionAsync node ?fake ?w2)))
          = traceInfos (subprovider w)"
        unfolding sendTransactionAsync_unwrapped [OF off2] by simp
      with tryBlk have traces3: "traceInfos (subprovider w3) = traceInfos (subprovider w)"
        by (cases rule: andThen_cases) (auto dest: awaitMined_world)
      show ?thesis
      proof (cases "out3 = Pending")
        case True
        with rest tryBlk have "w' = w3"
          by (simp add: tryCatchNoop_def andThen_simps)
        with traces3 show ?thesis by simp
      next
        case False
        with tryBlk have "tryCatchNoop (out3, w3) = (Resolved (), w3)"
          by (cases out3) (simp_all add: tryCatchNoop_def)
        with rest tryBlk have revert:
          "andThen (revertAsync node ?id w3) (\<lambda>u w5. (Resolved (), lock_release w5)) = (out, w')"
          by (simp add: andThen_simps)
        then show ?thesis using traces3
          by (auto simp: revertAsync_def andThen_simps lock_release_def
                split: option.splits if_splits)
      qed
    qed
  qed
qed

section \<open>Properties of the specification\<close>

subsection \<open>C1: the capture cycle of a call\<close>

text \<open>
  C1 at the input where the code departs from it: call traces are collected and
  transaction traces are not. \<^verbatim>\<open>handleRequest\<close> wraps the call; the cycle takes the lock
  and the snapshot, submits the synthetic transaction, reverts and completes; the
  synthetic transaction was forwarded unmodified (lines 80-81), so no trace of it was
  fetched and the registry has gained nothing. With transaction traces collected too, the
  same request at the same node appends one TraceInfo.
\<close>

theorem call_capture_records_nothing:
  "handleRequest (subprovider callsOnlyWorld) \<lparr>method = ''eth_call'', params = [demoCall]\<rparr>
     = OnCallOrGasEstimateExecuted (Some demoCall) \<and>
   onCallOrGasEstimateExecutedAsync demoNode (Some demoCall) None [] complete callsOnlyWorld
     = (Resolved (), callsOnlyWorld\<lparr>completed := 1\<rparr>) \<and>
   traceInfos (subprovider (callsOnlyWorld\<lparr>completed := 1\<rparr>)) = [] \<and>
   onCallOrGasEstimateExecutedAsync demoNode (Some demoCall) None [] complete demoWorld
     = (Resolved (),
        demoWorld\<lparr>subprovider := demoSubprovider
           \<lparr>traceInfos := [TraceInfoExistingContract [1, 2, 3] ''0xh1'' ''0xaaa'' ''0x6080'']\<rparr>,
           completed := 1\<rparr>)"
  by (simp add: handleRequest_def first_param_def onCallOrGasEstimateExecutedAsync_def
        recordCallOrGasEstimateTraceAsync_def sendTransactionAsync_def
        onTransactionSentAsync_def recordTxTraceAsync_def push_traceInfo_def toAddress_def
        NULL_ADDRESS_def NEW_CONTRACT_def lock_acquire_def lock_release_def startAsync_def
        revertAsync_def awaitMined_def awaitResult_def tryCatchNoop_def andThen_simps
        complete_def fakeTxData_def demoNode_def demoWorld_def callsOnlyWorld_def
        demoSubprovider_def callsOnlySubprovider_def new_TraceCollectionSubprovider_def
        demoConfig_def callsOnlyConfig_def demoCall_def)

subsection \<open>C2: a genuine transaction and the snapshot window\<close>

text \<open>
  C2 at the input where the code departs from it: a genuine \<^verbatim>\<open>eth_sendTransaction\<close>
  request that arrives while a capture cycle holds the lock and its snapshot is open.
  \<^verbatim>\<open>handleRequest\<close> forwards the request with \<^verbatim>\<open>_onTransactionSentAsync\<close> as its
  completion hook (line 84), so the node executes the transaction, taking the chain state
  from 7 to 8, before the hook asks for the lock (line 133); the hook then waits, and the
  revert of the cycle takes the chain state back to 7: the world after the cycle is the
  world before it, without the genuine transaction.
\<close>

theorem genuine_transaction_in_snapshot_window:
  "andThen (lock_acquire demoWorld) (\<lambda>u w1. startAsync demoNode w1)
     = (Resolved 1, midCycleWorld) \<and>
   isFakeTransaction demoTx \<noteq> Some True \<and>
   handleRequest (subprovider midCycleWorld)
       \<lparr>method = ''eth_sendTransaction'', params = [demoTx]\<rparr>
     = OnTransactionSent (Some demoTx) \<and>
   sendTransactionAsync demoNode demoTx midCycleWorld
     = (Pending, midCycleWorld\<lparr>chainState := 8\<rparr>) \<and>
   andThen (revertAsync demoNode 1 (midCycleWorld\<lparr>chainState := 8\<rparr>))
       (\<lambda>u w5. (Resolved (), lock_release w5))
     = (Resolved (), demoWorld)"
  by (simp add: sendTransactionAsync_def handleRequest_sendTransaction
        onTransactionSentAsync_def lock_acquire_def lock_release_def startAsync_def
        revertAsync_def andThen_simps midCycleWorld_def demoNode_def demoWorld_def
        demoSubprovider_def new_TraceCollectionSubprovider_def demoConfig_def demoTx_def)

subsection \<open>C3: release of the lock\<close>

text \<open>
  C3, as amended. Started with the lock free, the capture cycle of a call, and the hook
  of a genuine transaction, leave the lock released exactly when they run to completion
  (which includes a submission or mining failure swallowed inside the cycle);
  when they raise or never settle, the lock is still held.
\<close>

theorem lock_released_iff_resolved:
  "(\<not> lock (subprovider w) \<longrightarrow>
      lock (subprovider (snd (recordCallOrGasEstimateTraceAsync node boundCallData w)))
        = (fst (recordCallOrGasEstimateTraceAsync node boundCallData w) \<noteq> Resolved ())) \<and>
   (\<not> lock (subprovider w) \<and> isFakeTransaction txData \<noteq> Some True \<longrightarrow>
      lock (subprovider (snd (onTransactionSentAsync node (Some txData) res complete w)))
        = (fst (onTransactionSentAsync node (Some txData) res complete w) \<noteq> Resolved ()))"
proof (intro conjI impI)
  assume free: "\<not> lock (subprovider w)"
  obtain out w' where run: "recordCallOrGasEstimateTraceAsync node boundCallData w = (out, w')"
    by (cases "recordCallOrGasEstimateTraceAsync node boundCallData w")
  from recordCallOrGasEstimateTraceAsync_cases [OF run] free run
  show "lock (subprovider (snd (recordCallOrGasEstimateTraceAsync node boundCallData w)))
        = (fst (recordCallOrGasEstimateTraceAsync node boundCallData w) \<noteq> Resolved ())"
    by (auto dest: onlyTracesAdded_frame(4))
next
  assume "\<not> lock (subprovider w) \<and> isFakeTransaction txData \<noteq> Some True"
  then have free: "\<not> lock (subprovider w)" and genuine: "isFakeTransaction txData \<noteq> Some True"
    by simp_all
  obtain out w' where run: "onTransactionSentAsync node (Some txData) res complete w = (out, w')"
    by (cases "onTransactionSentAsync node (Some txData) res complete w")
  from onTransactionSentAsync_genuine [OF genuine free run] run
  show "lock (subprovider (snd (onTransactionSentAsync node (Some txData) res complete w)))
        = (fst (onTransactionSentAsync node (Some txData) res complete w) \<noteq> Resolved ())"
    by (auto simp: complete_def lock_release_def dest: onlyTracesAdded_frame(4))
qed

theorem lock_released_iff_resolved_witness:
  "fst (recordCallOrGasEstimateTraceAsync rejectingNode (Some demoCall) demoWorld) = Resolved () \<and>
   \<not> lock (subprovider (snd
       (recordCallOrGasEstimateTraceAsync rejectingNode (Some demoCall) demoWorld))) \<and>
   fst (onTransactionSentAsync demoNode (Some demoTx) (Inr ''0xh1'') complete demoWorld)
     = Resolved () \<and>
   \<not> lock (subprovider (snd
       (onTransactionSentAsync demoNode (Some demoTx) (Inr ''0xh1'') complete demoWorld))) \<and>
   fst (onTransactionSentAsync traceFaultNode (Some demoTx) (Inr ''0xh1'') complete demoWorld)
     = Rejected (Error ''trace unavailable'') \<and>
   lock (subprovider (snd
       (onTransactionSentAsync traceFaultNode (Some demoTx) (Inr ''0xh1'') complete demoWorld)))"
proof -
  have free: "\<not> lock (subprovider demoWorld)"
    by (simp add: demoWorld_def demoSubprovider_def new_TraceCollectionSubprovider_def)
  have genuine: "isFakeTransaction demoTx \<noteq> Some True"
    by (simp add: demoTx_def)
  have cycle: "fst (recordCallOrGasEstimateTraceAsync rejectingNode (Some demoCall) demoWorld)
      = Resolved ()"
    by (simp add: recordCallOrGasEstimateTraceAsync_def sendTransactionAsync_def
          handleRequest_sendTransaction onTransactionSentAsync_def recordTxTraceAsync_def
          push_traceInfo_def toAddress_def NULL_ADDRESS_def NEW_CONTRACT_def lock_acquire_def
          startAsync_def revertAsync_def awaitResult_def tryCatchNoop_def andThen_simps
          fakeTxData_def rejectingNode_def demoNode_def demoWorld_def demoSubprovider_def
          new_TraceCollectionSubprovider_def demoConfig_def demoCall_def)
  have sent: "fst (onTransactionSentAsync demoNode (Some demoTx) (Inr ''0xh1'') complete demoWorld)
      = Resolved ()"
    by (simp add: onTransactionSentAsync_def recordTxTraceAsync_def lock_acquire_def
          andThen_simps toAddress_def NULL_ADDRESS_def NEW_CONTRACT_def demoNode_def
          demoWorld_def demoSubprovider_def new_TraceCollectionSubprovider_def demoTx_def)
  have aborted: "fst (onTransactionSentAsync traceFaultNode (Some demoTx) (Inr ''0xh1'') complete
      demoWorld) = Rejected (Error ''trace unavailable'')"
    by (simp add: onTransactionSentAsync_def recordTxTraceAsync_def lock_acquire_def
          andThen_simps traceFaultNode_def demoNode_def demoWorld_def demoSubprovider_def
          new_TraceCollectionSubprovider_def demoTx_def)
  from cycle sent aborted free genuine
    lock_released_iff_resolved [of demoWorld rejectingNode "Some demoCall" demoTx
      "Inr ''0xh1''"]
    lock_released_iff_resolved [of demoWorld demoNode "Some demoCall" demoTx "Inr ''0xh1''"]
    lock_released_iff_resolved [of demoWorld traceFaultNode "Some demoCall" demoTx
      "Inr ''0xh1''"]
  show ?thesis by simp
qed

text \<open>
  C3 as stated fails: when a code fetch raises in the hook of a genuine transaction, the
  hook leaves with the lock held.
\<close>

theorem lock_held_counterexample:
  "onTransactionSentAsync codeFaultNode (Some demoTx) (Inr ''0xh1'') complete demoWorld
   = (Rejected (Error ''code unavailable''),
      demoWorld\<lparr>subprovider := demoSubprovider\<lparr>lock := True\<rparr>\<rparr>) \<and>
   lock (subprovider (demoWorld\<lparr>subprovider := demoSubprovider\<lparr>lock := True\<rparr>\<rparr>))"
  by (simp add: onTransactionSentAsync_def recordTxTraceAsync_def lock_acquire_def
        andThen_simps toAddress_def NULL_ADDRESS_def NEW_CONTRACT_def codeFaultNode_def
        demoNode_def demoTx_def demoWorld_def demoSubprovider_def
        new_TraceCollectionSubprovider_def)

subsection \<open>C4: the completion callback\<close>

text \<open>
  C4, as amended. Either hook calls the completion of the intercepted request exactly
  once when it runs to completion, and not at all when it raises or never settles.
\<close>

theorem completion_called_once_iff_resolved:
  "completed (snd (onTransactionSentAsync node boundTxData res complete w)) =
     completed w + (if fst (onTransactionSentAsync node boundTxData res complete w) = Resolved ()
                    then 1 else 0) \<and>
   completed (snd (onCallOrGasEstimateExecutedAsync node boundCallData err callResult complete w)) =
     completed w +
     (if fst (onCallOrGasEstimateExecutedAsync node boundCallData err callResult complete w)
           = Resolved ()
      then 1 else 0)"
  using onTransactionSentAsync_completed onCallOrGasEstimateExecutedAsync_completed by blast

theorem completion_called_once_iff_resolved_witness:
  "completed (snd (onTransactionSentAsync demoNode (Some demoTx) (Inr ''0xh1'') complete demoWorld))
     = 1 \<and>
   completed (snd (onTransactionSentAsync traceFaultNode (Some demoTx) (Inr ''0xh1'') complete
     demoWorld)) = 0 \<and>
   completed (snd (onCallOrGasEstimateExecutedAsync demoNode (Some demoCall) None [] complete
     demoWorld)) = 1 \<and>
   completed (snd (onCallOrGasEstimateExecutedAsync snapshotFaultNode (Some demoCall) None []
     complete demoWorld)) = 0"
proof -
  have "fst (onTransactionSentAsync demoNode (Some demoTx) (Inr ''0xh1'') complete demoWorld)
      = Resolved ()"
    by (simp add: onTransactionSentAsync_def recordTxTraceAsync_def lock_acquire_def
          andThen_simps toAddress_def NULL_ADDRESS_def NEW_CONTRACT_def demoNode_def
          demoWorld_def demoSubprovider_def new_TraceCollectionSubprovider_def demoTx_def)
  moreover
  have "fst (onTransactionSentAsync traceFaultNode (Some demoTx) (Inr ''0xh1'') complete demoWorld)
      = Rejected (Error ''trace unavailable'')"
    by (simp add: onTransactionSentAsync_def recordTxTraceAsync_def lock_acquire_def
          andThen_simps traceFaultNode_def demoNode_def demoWorld_def demoSubprovider_def
          new_TraceCollectionSubprovider_def demoTx_def)
  moreover
  have "fst (onCallOrGasEstimateExecutedAsync demoNode (Some demoCall) None [] complete demoWorld)
      = Resolved ()"
    by (simp add: onCallOrGasEstimateExecutedAsync_def recordCallOrGasEstimateTraceAsync_def
          sendTransactionAsync_def handleRequest_sendTransaction onTransactionSentAsync_def
          recordTxTraceAsync_def push_traceInfo_def toAddress_def NULL_ADDRESS_def
          NEW_CONTRACT_def lock_acquire_def startAsync_def revertAsync_def awaitMined_def
          awaitResult_def tryCatchNoop_def andThen_simps fakeTxData_def demoNode_def
          demoWorld_def demoSubprovider_def new_TraceCollectionSubprovider_def demoConfig_def
          demoCall_def)
  moreover
  have "fst (onCallOrGasEstimateExecutedAsync snapshotFaultNode (Some demoCall) None [] complete
      demoWorld) = Rejected (Error ''snapshot failed'')"
    by (simp add: onCallOrGasEstimateExecutedAsync_def recordCallOrGasEstimateTraceAsync_def
          lock_acquire_def startAsync_def andThen_simps snapshotFaultNode_def demoNode_def
          demoWorld_def demoSubprovider_def new_TraceCollectionSubprovider_def)
  moreover
  have "completed demoWorld = 0" by (simp add: demoWorld_def)
  ultimately show ?thesis
    using
      completion_called_once_iff_resolved [of demoNode "Some demoTx" "Inr ''0xh1''" demoWorld
        "Some demoCall" None "[]"]
      completion_called_once_iff_resolved [of traceFaultNode "Some demoTx" "Inr ''0xh1''"
        demoWorld "Some demoCall" None "[]"]
      completion_called_once_iff_resolved [of snapshotFaultNode "Some demoTx" "Inr ''0xh1''"
        demoWorld "Some demoCall" None "[]"]
    by simp
qed

text \<open>
  C4 as stated fails: when the trace fetch raises in the hook of a genuine transaction,
  the hook rejects, the completion has not been called and the lock is held.
\<close>

theorem completion_skipped_counterexample:
  "onTransactionSentAsync traceFaultNode (Some demoTx) (Inr ''0xh1'') complete demoWorld
   = (Rejected (Error ''trace unavailable''),
      demoWorld\<lparr>subprovider := demoSubprovider\<lparr>lock := True\<rparr>\<rparr>) \<and>
   completed (demoWorld\<lparr>subprovider := demoSubprovider\<lparr>lock := True\<rparr>\<rparr>) = 0"
  by (simp add: onTransactionSentAsync_def recordTxTraceAsync_def lock_acquire_def
        andThen_simps traceFaultNode_def demoNode_def demoTx_def demoWorld_def
        demoSubprovider_def new_TraceCollectionSubprovider_def toAddress_def)

subsection \<open>C5: a failing synthetic transaction\<close>

text \<open>
  C5 at the input where the code departs from it: every toggle on, and a node at which
  the mining wait of the synthetic transaction raises. The synthetic transaction is
  wrapped, so the wait raises first inside its own completion hook (line 166), before the
  callback of that hook; the submission never settles, the \<^verbatim>\<open>catch\<close> of line 226 is
  never reached, and the cycle stays suspended with the lock held, the snapshot not
  reverted and the chain state at 8. With transaction traces off the same failure reaches
  the \<^verbatim>\<open>catch\<close>: it is swallowed, and the cycle reverts, releases and completes.
\<close>

theorem mining_failure_never_settles:
  "onCallOrGasEstimateExecutedAsync miningFaultNode (Some demoCall) None [] complete demoWorld
     = (Pending,
        demoWorld\<lparr>subprovider := demoSubprovider\<lparr>lock := True\<rparr>, chainState := 8,
          snapshots := [7]\<rparr>) \<and>
   onCallOrGasEstimateExecutedAsync miningFaultNode (Some demoCall) None [] complete
       callsOnlyWorld
     = (Resolved (), callsOnlyWorld\<lparr>completed := 1\<rparr>)"
  by (simp add: onCallOrGasEstimateExecutedAsync_def recordCallOrGasEstimateTraceAsync_def
        sendTransactionAsync_def handleRequest_sendTransaction onTransactionSentAsync_def
        recordTxTraceAsync_def toAddress_def NULL_ADDRESS_def NEW_CONTRACT_def
        lock_acquire_def lock_release_def startAsync_def revertAsync_def awaitMined_def
        awaitResult_def tryCatchNoop_def andThen_simps complete_def fakeTxData_def
        miningFaultNode_def demoNode_def demoWorld_def callsOnlyWorld_def demoSubprovider_def
        callsOnlySubprovider_def new_TraceCollectionSubprovider_def demoConfig_def
        callsOnlyConfig_def demoCall_def)

subsection \<open>C6: classification of requests\<close>

text \<open>
  C6. \<^verbatim>\<open>handleRequest\<close> forwards a request unmodified when the component is disabled,
  when the method is none of \<^verbatim>\<open>eth_sendTransaction\<close>, \<^verbatim>\<open>eth_call\<close>, \<^verbatim>\<open>eth_estimateGas\<close>,
  and when the toggle of the method is off; otherwise it forwards it with the hook of the
  method, bound to the first parameter of the request.
\<close>

theorem handleRequest_forwarding:
  "(\<not> isEnabled sp \<longrightarrow> handleRequest sp p = Unmodified) \<and>
   (method p \<noteq> ''eth_sendTransaction'' \<and> method p \<noteq> ''eth_call'' \<and>
      method p \<noteq> ''eth_estimateGas'' \<longrightarrow> handleRequest sp p = Unmodified) \<and>
   (method p = ''eth_sendTransaction'' \<and> \<not> shouldCollectTransactionTraces (config sp)
      \<longrightarrow> handleRequest sp p = Unmodified) \<and>
   (method p = ''eth_call'' \<and> \<not> shouldCollectCallTraces (config sp)
      \<longrightarrow> handleRequest sp p = Unmodified) \<and>
   (method p = ''eth_estimateGas'' \<and> \<not> shouldCollectGasEstimateTraces (config sp)
      \<longrightarrow> handleRequest sp p = Unmodified) \<and>
   (isEnabled sp \<and> method p = ''eth_sendTransaction'' \<and>
      shouldCollectTransactionTraces (config sp)
      \<longrightarrow> handleRequest sp p = OnTransactionSent (first_param (params p))) \<and>
   (isEnabled sp \<and> method p = ''eth_call'' \<and> shouldCollectCallTraces (config sp)
      \<longrightarrow> handleRequest sp p = OnCallOrGasEstimateExecuted (first_param (params p))) \<and>
   (isEnabled sp \<and> method p = ''eth_estimateGas'' \<and>
      shouldCollectGasEstimateTraces (config sp)
      \<longrightarrow> handleRequest sp p = OnCallOrGasEstimateExecuted (first_param (params p)))"
  by (simp add: handleRequest_def)

theorem handleRequest_forwarding_witness:
  "handleRequest (stop demoSubprovider)
     \<lparr>method = ''eth_call'', params = [demoCall]\<rparr> = Unmodified \<and>
   handleRequest demoSubprovider
     \<lparr>method = ''eth_getBalance'', params = [demoCall]\<rparr> = Unmodified \<and>
   handleRequest callsOnlySubprovider
     \<lparr>method = ''eth_sendTransaction'', params = [demoCall]\<rparr> = Unmodified \<and>
   handleRequest txOnlySubprovider
     \<lparr>method = ''eth_call'', params = [demoCall]\<rparr> = Unmodified \<and>
   handleRequest txOnlySubprovider
     \<lparr>method = ''eth_estimateGas'', params = [demoCall]\<rparr> = Unmodified \<and>
   handleRequest demoSubprovider
     \<lparr>method = ''eth_sendTransaction'', params = [demoCall]\<rparr>
     = OnTransactionSent (Some demoCall) \<and>
   handleRequest demoSubprovider
     \<lparr>method = ''eth_call'', params = [demoCall, demoCallWithGas]\<rparr>
     = OnCallOrGasEstimateExecuted (Some demoCall) \<and>
   handleRequest callsOnlySubprovider
     \<lparr>method = ''eth_estimateGas'', params = []\<rparr>
     = (OnCallOrGasEstimateExecuted None :: CallData forwarded)"
  using
    handleRequest_forwarding [of "stop demoSubprovider"
      "\<lparr>method = ''eth_call'', params = [demoCall]\<rparr>"]
    handleRequest_forwarding [of demoSubprovider
      "\<lparr>method = ''eth_getBalance'', params = [demoCall]\<rparr>"]
    handleRequest_forwarding [of callsOnlySubprovider
      "\<lparr>method = ''eth_sendTransaction'', params = [demoCall]\<rparr>"]
    handleRequest_forwarding [of txOnlySubprovider
      "\<lparr>method = ''eth_call'', params = [demoCall]\<rparr>"]
    handleRequest_forwarding [of txOnlySubprovider
      "\<lparr>method = ''eth_estimateGas'', params = [demoCall]\<rparr>"]
    handleRequest_forwarding [of demoSubprovider
      "\<lparr>method = ''eth_sendTransaction'', params = [demoCall]\<rparr>"]
    handleRequest_forwarding [of demoSubprovider
      "\<lparr>method = ''eth_call'', params = [demoCall, demoCallWithGas]\<rparr>"]
    handleRequest_forwarding [of callsOnlySubprovider
      "\<lparr>method = ''eth_estimateGas'', params = []\<rparr>"]
  by (simp add: demoSubprovider_def callsOnlySubprovider_def txOnlySubprovider_def
        new_TraceCollectionSubprovider_def stop_def demoConfig_def callsOnlyConfig_def
        txOnlyConfig_def first_param_def)

subsection \<open>C7: the recipient of a sent transaction\<close>

text \<open>
  C7. On the success path (the engine passes a hash, no error) the hook records the trace
  under the new-contract sentinel when \<^verbatim>\<open>to\<close> is absent or the null address, and under
  \<^verbatim>\<open>to\<close> itself otherwise.
\<close>

theorem transaction_recipient:
  "(to txData = None \<or> to txData = Some ''0x0'' \<longrightarrow>
      onTransactionSentAsync node (Some txData) (Inr h) cb w =
        andThen
          (if isFakeTransaction txData \<noteq> Some True then lock_acquire w else (Resolved (), w))
          (\<lambda>u w1.
             andThen (recordTxTraceAsync node NEW_CONTRACT (data txData) h w1)
               (\<lambda>u w3.
                  (Resolved (),
                   cb (if isFakeTransaction txData \<noteq> Some True then lock_release w3 else w3))))) \<and>
   (to txData = Some recipient \<and> recipient \<noteq> ''0x0'' \<longrightarrow>
      onTransactionSentAsync node (Some txData) (Inr h) cb w =
        andThen
          (if isFakeTransaction txData \<noteq> Some True then lock_acquire w else (Resolved (), w))
          (\<lambda>u w1.
             andThen (recordTxTraceAsync node recipient (data txData) h w1)
               (\<lambda>u w3.
                  (Resolved (),
                   cb (if isFakeTransaction txData \<noteq> Some True then lock_release w3 else w3)))))"
  by (auto simp: onTransactionSentAsync_def toAddress_def NULL_ADDRESS_def)

theorem transaction_recipient_witness:
  "onTransactionSentAsync demoNode (Some demoDeployment) (Inr ''0xh1'') complete demoWorld
     = (Resolved (),
        demoWorld\<lparr>subprovider := demoSubprovider
           \<lparr>traceInfos :=
              [TraceInfoNewContract [1, 2, 3] ''0xh1'' NEW_CONTRACT (Some ''0x6001'')]\<rparr>,
           completed := 1\<rparr>) \<and>
   onTransactionSentAsync demoNode (Some (demoDeployment\<lparr>to := Some ''0x0''\<rparr>)) (Inr ''0xh1'')
       complete demoWorld
     = (Resolved (),
        demoWorld\<lparr>subprovider := demoSubprovider
           \<lparr>traceInfos :=
              [TraceInfoNewContract [1, 2, 3] ''0xh1'' NEW_CONTRACT (Some ''0x6001'')]\<rparr>,
           completed := 1\<rparr>) \<and>
   onTransactionSentAsync demoNode (Some demoTx) (Inr ''0xh1'') complete demoWorld
     = (Resolved (),
        demoWorld\<lparr>subprovider := demoSubprovider
           \<lparr>traceInfos :=
              [TraceInfoExistingContract [1, 2, 3] ''0xh1'' ''0xaaa'' ''0x6080'']\<rparr>,
           completed := 1\<rparr>)"
  using
    transaction_recipient [of demoDeployment demoNode "''0xh1''" complete demoWorld "''0xaaa''"]
    transaction_recipient [of "demoDeployment\<lparr>to := Some ''0x0''\<rparr>" demoNode "''0xh1''"
      complete demoWorld "''0xaaa''"]
    transaction_recipient [of demoTx demoNode "''0xh1''" complete demoWorld "''0xaaa''"]
  by (simp add: recordTxTraceAsync_def push_traceInfo_def lock_acquire_def lock_release_def
        andThen_simps complete_def NEW_CONTRACT_def demoNode_def demoWorld_def
        demoSubprovider_def new_TraceCollectionSubprovider_def demoDeployment_def demoTx_def)

subsection \<open>C8: the synthetic transaction\<close>

text \<open>
  C8, as amended. The synthetic transaction has the sender of the payload, or the default
  sender when the payload has none or an empty one; its gas is 6000000 when the payload
  has no \<^verbatim>\<open>gas\<close> property, and the \<^verbatim>\<open>gas\<close> property of the payload when it has one: its
  value, or \<^verbatim>\<open>undefined\<close> when the property is there with no value; and it carries the
  marker.
\<close>

theorem fakeTxData_fields:
  "(from' callData = None \<or> from' callData = Some [] \<longrightarrow>
      from' (fakeTxData sp callData) = Some (defaultFromAddress sp)) \<and>
   (from' callData = Some sender \<and> sender \<noteq> [] \<longrightarrow>
      from' (fakeTxData sp callData) = Some sender) \<and>
   (gas callData = Absent \<longrightarrow> gas (fakeTxData sp callData) = Defined 6000000) \<and>
   (gas callData = Undefined \<longrightarrow> gas (fakeTxData sp callData) = Undefined) \<and>
   (gas callData = Defined g \<longrightarrow> gas (fakeTxData sp callData) = Defined g) \<and>
   isFakeTransaction (fakeTxData sp callData) = Some True"
  by (auto simp: fakeTxData_def BLOCK_GAS_LIMIT_def)

theorem fakeTxData_fields_witness:
  "from' (fakeTxData demoSubprovider demoCall) = Some ''0xdef'' \<and>
   gas (fakeTxData demoSubprovider demoCall) = Defined 6000000 \<and>
   gas (fakeTxData demoSubprovider (demoCall\<lparr>gas := Undefined\<rparr>)) = Undefined \<and>
   from' (fakeTxData demoSubprovider demoCallWithGas) = Some ''0xbbb'' \<and>
   gas (fakeTxData demoSubprovider demoCallWithGas) = Defined 21000"
  using
    fakeTxData_fields [of demoCall demoSubprovider "''0xbbb''" 21000]
    fakeTxData_fields [of "demoCall\<lparr>gas := Undefined\<rparr>" demoSubprovider "''0xbbb''" 21000]
    fakeTxData_fields [of demoCallWithGas demoSubprovider "''0xbbb''" 21000]
  by (simp add: demoCall_def demoCallWithGas_def demoSubprovider_def
        new_TraceCollectionSubprovider_def)

text \<open>
  C8 as stated fails: a payload with a \<^verbatim>\<open>gas\<close> property keeps it, be it 21000 or
  \<^verbatim>\<open>undefined\<close>.
\<close>

theorem fakeTxData_gas_counterexample:
  "gas (fakeTxData demoSubprovider demoCallWithGas) \<noteq> Defined 6000000 \<and>
   gas (fakeTxData demoSubprovider (demoCall\<lparr>gas := Undefined\<rparr>)) \<noteq> Defined 6000000"
  by (simp add: fakeTxData_def demoCallWithGas_def demoCall_def)

subsection \<open>C9: the variant of the appended TraceInfo\<close>



subsection \<open>C10: enabled from construction\<close>

text \<open>
  C10. A new subprovider is enabled before \<^verbatim>\<open>start\<close> is ever called: \<^verbatim>\<open>handleRequest\<close>
  wraps a request of each of the three methods whose toggle is on with the hook of the
  method, bound to the first parameter, and answers every request as it does after
  \<^verbatim>\<open>start\<close>; \<^verbatim>\<open>stop\<close> makes it forward everything unmodified, and \<^verbatim>\<open>start\<close> after
  \<^verbatim>\<open>stop\<close> restores the answers of the new subprovider.
\<close>

theorem enabled_from_construction:
  fixes fresh sp :: "'l TraceCollectionSubprovider"
  assumes fresh: "fresh = new_TraceCollectionSubprovider defaultFrom cfg"
  shows "isEnabled fresh \<and>
   (method p = ''eth_sendTransaction'' \<and> shouldCollectTransactionTraces cfg \<longrightarrow>
      handleRequest fresh p = OnTransactionSent (first_param (params p))) \<and>
   (method p = ''eth_call'' \<and> shouldCollectCallTraces cfg \<longrightarrow>
      handleRequest fresh p = OnCallOrGasEstimateExecuted (first_param (params p))) \<and>
   (method p = ''eth_estimateGas'' \<and> shouldCollectGasEstimateTraces cfg \<longrightarrow>
      handleRequest fresh p = OnCallOrGasEstimateExecuted (first_param (params p))) \<and>
   handleRequest fresh p = handleRequest (start fresh) p \<and>
   handleRequest (stop fresh) p = Unmodified \<and>
   handleRequest (start (stop fresh)) p = handleRequest fresh p \<and>
   handleRequest (start (stop sp)) p = handleRequest (start sp) p"
  unfolding fresh
  by (simp add: handleRequest_def new_TraceCollectionSubprovider_def start_def stop_def)

theorem enabled_from_construction_witness:
  "handleRequest demoSubprovider \<lparr>method = ''eth_sendTransaction'', params = [demoCall]\<rparr>
     = OnTransactionSent (Some demoCall) \<and>
   handleRequest demoSubprovider \<lparr>method = ''eth_call'', params = [demoCall]\<rparr>
     = OnCallOrGasEstimateExecuted (Some demoCall) \<and>
   handleRequest demoSubprovider \<lparr>method = ''eth_estimateGas'', params = [demoCall]\<rparr>
     = OnCallOrGasEstimateExecuted (Some demoCall) \<and>
   handleRequest (stop demoSubprovider) \<lparr>method = ''eth_call'', params = [demoCall]\<rparr>
     = Unmodified \<and>
   handleRequest (start (stop demoSubprovider)) \<lparr>method = ''eth_call'', params = [demoCall]\<rparr>
     = OnCallOrGasEstimateExecuted (Some demoCall)"
proof -
  have toggles: "shouldCollectTransactionTraces demoConfig" "shouldCollectCallTraces demoConfig"
    "shouldCollectGasEstimateTraces demoConfig"
    by (simp_all add: demoConfig_def)
  from toggles
    enabled_from_construction [OF demoSubprovider_def,
      of "\<lparr>method = ''eth_sendTransaction'', params = [demoCall]\<rparr>" demoSubprovider]
    enabled_from_construction [OF demoSubprovider_def,
      of "\<lparr>method = ''eth_call'', params = [demoCall]\<rparr>" demoSubprovider]
    enabled_from_construction [OF demoSubprovider_def,
      of "\<lparr>method = ''eth_estimateGas'', params = [demoCall]\<rparr>" demoSubprovider]
  show ?thesis
    by (simp add: first_param_def)
qed

end
